theory Spec2Isabelle
  imports Main
begin

section \<open>The authentication configuration of \<^verbatim>\<open>src/auth/config.ts\<close>\<close>

text \<open>
  The module builds a list of sign-in providers from the process environment, projects
  it to \<^verbatim>\<open>providerMap\<close>, and hands four callbacks (\<^verbatim>\<open>signIn\<close>, \<^verbatim>\<open>redirect\<close>,
  \<^verbatim>\<open>session\<close>, \<^verbatim>\<open>jwt\<close>) and the One Tap \<^verbatim>\<open>authorize\<close> function to the
  authentication framework.

  Modelling conventions:
  \<^item> a JavaScript string is a \<open>string\<close>; \<^verbatim>\<open>undefined\<close> is \<open>None\<close>;
  \<^item> an \<^verbatim>\<open>async\<close> function returns \<open>error + 'a\<close>: \<open>Inr\<close> is the value its promise
    resolves to, \<open>Inl\<close> the exception it rejects with (what the caller's
    \<^verbatim>\<open>await\<close> throws);
  \<^item> what the module does not define (the URL parser, \<^verbatim>\<open>fetch\<close>, the clock, the
    helpers of \<^verbatim>\<open>@/lib\<close> and \<^verbatim>\<open>@/services\<close>, the provider constructors of the
    framework) is a parameter of the function that uses it, so every theorem holds for
    every behaviour of these collaborators;
  \<^item> console output and the calls of \<^verbatim>\<open>fetch\<close> and \<^verbatim>\<open>saveUser\<close> are recorded, in
    order, in a list of events returned beside the result.
\<close>

subsection \<open>Exceptions and JavaScript values\<close>

datatype error = TypeError | SyntaxError | Error string

text \<open>
  The values \<^verbatim>\<open>JSON.parse\<close> produces. A number is carried by its canonical text
  (the result of \<^verbatim>\<open>Number.prototype.toString\<close>), which is all this module can observe
  of it: its truthiness and its string conversion. An object is the list of its
  members in source order; on a duplicate key the last member wins.
\<close>

datatype jsval =
    JNull
  | JBool bool
  | JNum string
  | JStr string
  | JArr "jsval list"
  | JObj "(string \<times> jsval) list"

text \<open>Truthiness: \<^verbatim>\<open>!v\<close> holds exactly when \<open>truthy v\<close> does not.\<close>

fun truthy :: "jsval \<Rightarrow> bool" where
  "truthy JNull = False"
| "truthy (JBool b) = b"
| "truthy (JNum s) = (s \<noteq> ''0'' \<and> s \<noteq> ''NaN'')"
| "truthy (JStr s) = (s \<noteq> [])"
| "truthy (JArr xs) = True"
| "truthy (JObj kvs) = True"

text \<open>A value that may be \<^verbatim>\<open>undefined\<close>.\<close>

fun truthy_opt :: "jsval option \<Rightarrow> bool" where
  "truthy_opt None = False"
| "truthy_opt (Some v) = truthy v"

text \<open>A string that may be \<^verbatim>\<open>undefined\<close> or \<^verbatim>\<open>null\<close> (an environment variable, an
  optional string field): truthy when present and not empty.\<close>

fun truthy_str :: "string option \<Rightarrow> bool" where
  "truthy_str None = False"
| "truthy_str (Some s) = (s \<noteq> [])"

text \<open>Property access \<^verbatim>\<open>v.k\<close> for the keys this module reads (none of them is on a
  prototype of a value that passes the checks before its use).\<close>

fun get_prop :: "jsval \<Rightarrow> string \<Rightarrow> jsval option" where
  "get_prop (JObj kvs) k = map_of (rev kvs) k"
| "get_prop v k = None"

fun intersperse :: "string \<Rightarrow> string list \<Rightarrow> string" where
  "intersperse sep [] = []"
| "intersperse sep [x] = x"
| "intersperse sep (x # y # ys) = x @ sep @ intersperse sep (y # ys)"

text \<open>The first exception of a list of outcomes, or all their values: what evaluating
  them from left to right gives.\<close>

fun sequence :: "(error + 'a) list \<Rightarrow> error + 'a list" where
  "sequence [] = Inr []"
| "sequence (Inl e # rs) = Inl e"
| "sequence (Inr x # rs) = (case sequence rs of Inl e \<Rightarrow> Inl e | Inr xs \<Rightarrow> Inr (x # xs))"

text \<open>\<open>has_own kvs k\<close>: the object with the members \<open>kvs\<close> has an own member \<open>k\<close>.\<close>

definition has_own :: "(string \<times> jsval) list \<Rightarrow> string \<Rightarrow> bool" where
  "has_own kvs k = (k \<in> set (map fst kvs))"

text \<open>
  String conversion of a parsed JSON value, as \<^verbatim>\<open>"..." + v\<close> and
  \<^verbatim>\<open>Array.prototype.join\<close> perform it. An array joins its elements with a comma,
  \<^verbatim>\<open>null\<close> elements as the empty string. An object is converted by its \<^verbatim>\<open>toString\<close>
  method: without an own member of that name it inherits the one that returns
  \<^verbatim>\<open>[object Object]\<close>; an own member \<^verbatim>\<open>toString\<close> hides it, and since no parsed
  value is callable (and \<^verbatim>\<open>valueOf\<close>, own or inherited, gives no primitive) the
  conversion throws a \<^verbatim>\<open>TypeError\<close>.
\<close>

fun to_string :: "jsval \<Rightarrow> error + string" where
  "to_string JNull = Inr ''null''"
| "to_string (JBool b) = Inr (if b then ''true'' else ''false'')"
| "to_string (JNum s) = Inr s"
| "to_string (JStr s) = Inr s"
| "to_string (JArr xs) =
     (case sequence (map (\<lambda>x. if x = JNull then Inr [] else to_string x) xs) of
        Inl e \<Rightarrow> Inl e
      | Inr ss \<Rightarrow> Inr (intersperse '','' ss))"
| "to_string (JObj kvs) =
     (if has_own kvs ''toString'' then Inl TypeError else Inr ''[object Object]'')"

text \<open>\<^verbatim>\<open>Array.prototype.join\<close>: \<^verbatim>\<open>undefined\<close> and \<^verbatim>\<open>null\<close> elements become the
  empty string, every other element its string conversion; the first conversion that
  throws ends the call.\<close>

fun join_elem :: "jsval option \<Rightarrow> error + string" where
  "join_elem None = Inr []"
| "join_elem (Some JNull) = Inr []"
| "join_elem (Some v) = to_string v"

definition join :: "jsval option list \<Rightarrow> string \<Rightarrow> error + string" where
  "join xs sep =
     (case sequence (map join_elem xs) of
        Inl e \<Rightarrow> Inl e
      | Inr ss \<Rightarrow> Inr (intersperse sep ss))"

text \<open>The right operand of \<^verbatim>\<open>"..." + v\<close>.\<close>

fun concat_operand :: "jsval option \<Rightarrow> error + string" where
  "concat_operand None = Inr ''undefined''"
| "concat_operand (Some v) = to_string v"

definition startsWith :: "string \<Rightarrow> string \<Rightarrow> bool" where
  "startsWith s p = (take (length p) s = p)"

subsection \<open>The \<^verbatim>\<open>redirect\<close> callback\<close>

text \<open>
  \<^verbatim>\<open>
  async redirect({ url, baseUrl }) {
    if (url.startsWith("/")) return `${baseUrl}${url}`;
    else if (new URL(url).origin === baseUrl) return url;
    return baseUrl;
  }
  \<close>
  The parameter \<open>origin\<close> is \<^verbatim>\<open>new URL(u).origin\<close>: \<open>None\<close> when the constructor
  throws its \<^verbatim>\<open>TypeError\<close> (the string does not parse as an absolute URL), the
  serialised origin otherwise.
\<close>

definition redirect :: "(string \<Rightarrow> string option) \<Rightarrow> string \<Rightarrow> string \<Rightarrow> error + string" where
  "redirect origin url baseUrl =
     (if startsWith url ''/'' then Inr (baseUrl @ url)
      else (case origin url of
              None \<Rightarrow> Inl TypeError
            | Some og \<Rightarrow> if og = baseUrl then Inr url else Inr baseUrl))"

text \<open>
  A small URL parser to run \<open>redirect\<close> on concrete inputs. It accepts
  \<^verbatim>\<open>http://host...\<close> and \<^verbatim>\<open>https://host...\<close> with a non-empty host of lower-case
  letters and dots, ended by the end of the string or by one of
  \<^verbatim>\<open>/ ? #\<close>, and rejects every other string. It stands for the platform's parser
  only at the inputs used below, where both give the same answer.
\<close>

definition host_char :: "char \<Rightarrow> bool" where
  "host_char c = (c \<in> set ''abcdefghijklmnopqrstuvwxyz.'')"

definition origin_after :: "string \<Rightarrow> string \<Rightarrow> string option" where
  "origin_after scheme rest =
     (let host = takeWhile host_char rest; after = dropWhile host_char rest in
      if host = [] then None
      else if after = [] \<or> hd after \<in> set ''/?#'' then Some (scheme @ host)
      else None)"

definition example_origin :: "string \<Rightarrow> string option" where
  "example_origin u =
     (if startsWith u ''https://'' then origin_after ''https://'' (drop 8 u)
      else if startsWith u ''http://'' then origin_after ''http://'' (drop 7 u)
      else None)"

subsection \<open>The One Tap \<^verbatim>\<open>authorize\<close> function\<close>

datatype date = Date nat

text \<open>The form fields the framework passes. Its type gives \<^verbatim>\<open>authorize\<close> an object
  (so \<^verbatim>\<open>credentials!\<close> does not fail) whose \<^verbatim>\<open>credential\<close> member may be absent.\<close>

record credentials =
  credential :: "jsval option"

text \<open>What \<^verbatim>\<open>await fetch(url)\<close> resolves to: \<^verbatim>\<open>response.ok\<close>, and the outcome of
  \<^verbatim>\<open>await response.json()\<close>, which rejects on a body that is not JSON.\<close>

record response =
  ok :: bool
  json :: "error + jsval"

text \<open>The object \<^verbatim>\<open>authorize\<close> returns: \<^verbatim>\<open>{id, name, email, image, emailVerified}\<close>.\<close>

record one_tap_user =
  ot_id :: "jsval option"
  ot_name :: string
  ot_email :: jsval
  ot_image :: "jsval option"
  ot_emailVerified :: "date option"

text \<open>The local user record of \<^verbatim>\<open>@/types/user\<close>, as \<^verbatim>\<open>jwt\<close> fills it.\<close>

record User =
  uuid :: string
  email :: string
  nickname :: string
  avatar_url :: string
  signin_type :: string
  signin_provider :: string
  signin_openid :: string
  created_at :: string
  signin_ip :: string

datatype event =
    ConsoleLog string
  | ConsoleError string error
  | Fetch string
  | SaveUser User

text \<open>The address \<^verbatim>\<open>authorize\<close> fetches, for the string the credential converts
  to.\<close>

definition tokeninfo_url :: "string \<Rightarrow> string" where
  "tokeninfo_url tok = ''https://oauth2.googleapis.com/tokeninfo?id_token='' @ tok"

text \<open>
  \<open>authorize env fetch now credentials\<close>: \<open>env\<close> is \<^verbatim>\<open>process.env\<close>, \<open>fetch\<close> the
  outcome of \<^verbatim>\<open>await fetch(url)\<close> (\<open>Inl\<close> when the promise rejects), \<open>now\<close> the value
  of \<^verbatim>\<open>new Date()\<close>. The result \<open>Inr None\<close> is the \<^verbatim>\<open>null\<close> return. The argument of
  \<^verbatim>\<open>fetch\<close> is evaluated before the call, so a credential whose string conversion
  throws ends \<^verbatim>\<open>authorize\<close> before anything is fetched; the \<^verbatim>\<open>join\<close> of the name
  parts is evaluated after the checks of the payload.
\<close>

definition authorize ::
  "(string \<Rightarrow> string option) \<Rightarrow> (string \<Rightarrow> error + response) \<Rightarrow> date \<Rightarrow> credentials
     \<Rightarrow> (error + one_tap_user option) \<times> event list" where
  "authorize env fetch now creds =
     (let googleClientId = env ''NEXT_PUBLIC_AUTH_GOOGLE_ID'' in
      if \<not> truthy_str googleClientId
      then (Inr None, [ConsoleLog ''invalid google auth config''])
      else
        let token = credential creds
        in (case concat_operand token of
              Inl e \<Rightarrow> (Inl e, [])
            | Inr tok \<Rightarrow>
        let url = tokeninfo_url tok
        in (case fetch url of
              Inl e \<Rightarrow> (Inl e, [Fetch url])
            | Inr response \<Rightarrow>
                if \<not> ok response
                then (Inr None, [Fetch url, ConsoleLog ''Failed to verify token''])
                else (case json response of
                        Inl e \<Rightarrow> (Inl e, [Fetch url])
                      | Inr payload \<Rightarrow>
                          if \<not> truthy payload
                          then (Inr None, [Fetch url, ConsoleLog ''invalid payload from token''])
                          else
                            let email = get_prop payload ''email'';
                                sub = get_prop payload ''sub'';
                                given_name = get_prop payload ''given_name'';
                                family_name = get_prop payload ''family_name'';
                                email_verified = get_prop payload ''email_verified'';
                                image = get_prop payload ''picture''
                            in (case email of
                                  None \<Rightarrow>
                                    (Inr None, [Fetch url, ConsoleLog ''invalid email in payload''])
                                | Some em \<Rightarrow>
                                    if \<not> truthy em
                                    then (Inr None,
                                          [Fetch url, ConsoleLog ''invalid email in payload''])
                                    else
                                      (case join [given_name, family_name] '' '' of
                                         Inl e \<Rightarrow> (Inl e, [Fetch url])
                                       | Inr name \<Rightarrow>
                                           (Inr (Some \<lparr>ot_id = sub,
                                                       ot_name = name,
                                                       ot_email = em,
                                                       ot_image = image,
                                                       ot_emailVerified =
                                                         (if truthy_opt email_verified
                                                          then Some now else None)\<rparr>),
                                            [Fetch url])))))))"

subsection \<open>The provider list and \<^verbatim>\<open>providerMap\<close>\<close>

text \<open>
  A provider descriptor is the framework's constructor applied to the configuration
  the module passes. What the framework makes of it is not in this repository, so the
  constructors are left free, and what \<^verbatim>\<open>providerMap\<close> reads of a descriptor
  (\<^verbatim>\<open>typeof provider\<close>, and \<^verbatim>\<open>id\<close> and \<^verbatim>\<open>name\<close> of it or of what it returns when
  called) is the parameter \<open>lib\<close> below.
\<close>

record credentials_config =
  cfg_id :: string
  cfg_name :: string
  cfg_credentials :: "(string \<times> (string \<times> string) list) list"
  cfg_authorize ::
    "(string \<Rightarrow> string option) \<Rightarrow> (string \<Rightarrow> error + response) \<Rightarrow> date \<Rightarrow> credentials
       \<Rightarrow> (error + one_tap_user option) \<times> event list"

record oauth_config =
  clientId :: string
  clientSecret :: string

datatype provider =
    CredentialsProvider credentials_config
  | GoogleProvider oauth_config
  | GitHubProvider oauth_config

text \<open>An element of \<^verbatim>\<open>providerMap\<close>: \<^verbatim>\<open>{id, name}\<close>.\<close>

record entry =
  entry_id :: string
  entry_name :: string

text \<open>\<open>IsFunction d\<close>: \<^verbatim>\<open>typeof provider === "function"\<close> and \<^verbatim>\<open>provider()\<close> returns
  an object with the \<^verbatim>\<open>id\<close> and \<^verbatim>\<open>name\<close> of \<open>d\<close>; \<open>IsObject d\<close>: the provider is
  an object with them.\<close>

datatype shape = IsFunction entry | IsObject entry

definition push :: "'a list \<Rightarrow> 'a \<Rightarrow> 'a list" where
  "push xs x = xs @ [x]"

definition providers :: "(string \<Rightarrow> string option) \<Rightarrow> provider list" where
  "providers env =
     (let ps0 = [];
          ps1 =
            (if env ''NEXT_PUBLIC_AUTH_GOOGLE_ONE_TAP_ENABLED'' = Some ''true'' \<and>
                truthy_str (env ''NEXT_PUBLIC_AUTH_GOOGLE_ID'')
             then push ps0
                    (CredentialsProvider
                       \<lparr>cfg_id = ''google-one-tap'',
                        cfg_name = ''google-one-tap'',
                        cfg_credentials = [(''credential'', [(''type'', ''text'')])],
                        cfg_authorize = authorize\<rparr>)
             else ps0);
          ps2 =
            (if env ''NEXT_PUBLIC_AUTH_GOOGLE_ENABLED'' = Some ''true'' \<and>
                truthy_str (env ''AUTH_GOOGLE_ID'') \<and>
                truthy_str (env ''AUTH_GOOGLE_SECRET'')
             then push ps1
                    (GoogleProvider
                       \<lparr>clientId = the (env ''AUTH_GOOGLE_ID''),
                        clientSecret = the (env ''AUTH_GOOGLE_SECRET'')\<rparr>)
             else ps1);
          ps3 =
            (if env ''NEXT_PUBLIC_AUTH_GITHUB_ENABLED'' = Some ''true'' \<and>
                truthy_str (env ''AUTH_GITHUB_ID'') \<and>
                truthy_str (env ''AUTH_GITHUB_SECRET'')
             then push ps2
                    (GitHubProvider
                       \<lparr>clientId = the (env ''AUTH_GITHUB_ID''),
                        clientSecret = the (env ''AUTH_GITHUB_SECRET'')\<rparr>)
             else ps2)
      in ps3)"

definition project :: "(provider \<Rightarrow> shape) \<Rightarrow> provider \<Rightarrow> entry" where
  "project lib provider =
     (case lib provider of
        IsFunction providerData \<Rightarrow>
          \<lparr>entry_id = entry_id providerData, entry_name = entry_name providerData\<rparr>
      | IsObject p \<Rightarrow> \<lparr>entry_id = entry_id p, entry_name = entry_name p\<rparr>)"

definition providerMap :: "(provider \<Rightarrow> shape) \<Rightarrow> (string \<Rightarrow> string option) \<Rightarrow> entry list" where
  "providerMap lib env =
     filter (\<lambda>provider. entry_id provider \<noteq> ''google-one-tap'')
       (map (project lib) (providers env))"

subsection \<open>The \<^verbatim>\<open>signIn\<close> and \<^verbatim>\<open>session\<close> callbacks\<close>


text \<open>The object \<^verbatim>\<open>jwt\<close> stores in \<^verbatim>\<open>token.user\<close>:
  \<^verbatim>\<open>{uuid, email, nickname, avatar_url, created_at}\<close>.\<close>

record projection =
  p_uuid :: string
  p_email :: string
  p_nickname :: string
  p_avatar_url :: string
  p_created_at :: string

text \<open>The token: its \<^verbatim>\<open>user\<close> member (absent until \<^verbatim>\<open>jwt\<close> sets it); the
  framework's own members are the extension of the record.\<close>

record jwt_token =
  token_user :: "projection option"

text \<open>\<^verbatim>\<open>session.user\<close> holds what the framework put there, or the projection copied
  from the token.\<close>

datatype 'u session_user = Original 'u | FromToken projection

record 'u session_object =
  session_user :: "'u session_user"

text \<open>
  \<^verbatim>\<open>
  async session({ session, token, user }) {
    if (token && token.user && token.user) { session.user = token.user; }
    return session;
  }
  \<close>
\<close>

definition session ::
  "('u, 's) session_object_scheme \<Rightarrow> 't jwt_token_scheme option
     \<Rightarrow> error + ('u, 's) session_object_scheme" where
  "session ses token =
     (case token of
        None \<Rightarrow> Inr ses
      | Some t \<Rightarrow>
          (case token_user t of
             None \<Rightarrow> Inr ses
           | Some u \<Rightarrow> Inr (ses\<lparr>session_user := FromToken u\<rparr>)))"

subsection \<open>The \<^verbatim>\<open>jwt\<close> callback\<close>

text \<open>The framework's user (\<^verbatim>\<open>name\<close>, \<^verbatim>\<open>email\<close>, \<^verbatim>\<open>image\<close>: a string,
  \<^verbatim>\<open>null\<close> or \<^verbatim>\<open>undefined\<close>) and account.\<close>

record auth_user =
  user_name :: "string option"
  user_email :: "string option"
  user_image :: "string option"

record account =
  account_type :: string
  provider :: string
  providerAccountId :: string

text \<open>The helpers \<^verbatim>\<open>jwt\<close> calls, each with the outcome of its call: \<open>Inl\<close> when it
  throws or its promise rejects.\<close>

record collaborators =
  getUuid :: "error + string"
  getIsoTimestr :: "error + string"
  getClientIp :: "error + string"
  saveUser :: "User \<Rightarrow> error + User"

text \<open>\<^verbatim>\<open>s || ""\<close> for an optional string.\<close>

fun or_empty :: "string option \<Rightarrow> string" where
  "or_empty None = []"
| "or_empty (Some s) = s"

text \<open>The object literal \<^verbatim>\<open>dbUser\<close>, with the results of \<^verbatim>\<open>getUuid()\<close>,
  \<^verbatim>\<open>getIsoTimestr()\<close> and \<^verbatim>\<open>await getClientIp()\<close> named. It is built under the
  guard that \<^verbatim>\<open>user.email\<close> is a non-empty string.\<close>

definition dbUser_of :: "string \<Rightarrow> string \<Rightarrow> string \<Rightarrow> auth_user \<Rightarrow> account \<Rightarrow> User" where
  "dbUser_of new_uuid now ip u a =
     \<lparr>uuid = new_uuid,
      email = the (user_email u),
      nickname = or_empty (user_name u),
      avatar_url = or_empty (user_image u),
      signin_type = account_type a,
      signin_provider = provider a,
      signin_openid = providerAccountId a,
      created_at = now,
      signin_ip = ip\<rparr>"

text \<open>
  The body of the outer \<^verbatim>\<open>try\<close>. \<open>Inl e\<close> is an exception that reaches the outer
  \<^verbatim>\<open>catch\<close>; the inner \<^verbatim>\<open>try\<close> around \<^verbatim>\<open>saveUser\<close> handles its own. The
  helpers are called in the order of the object literal.
\<close>

definition jwt_try ::
  "collaborators \<Rightarrow> 't jwt_token_scheme \<Rightarrow> auth_user option \<Rightarrow> account option
     \<Rightarrow> (error + 't jwt_token_scheme) \<times> event list" where
  "jwt_try c token user acct =
     (case user of
        None \<Rightarrow> (Inr token, [])
      | Some u \<Rightarrow>
          if \<not> truthy_str (user_email u) then (Inr token, [])
          else
            (case acct of
               None \<Rightarrow> (Inr token, [])
             | Some a \<Rightarrow>
                 (case getUuid c of
                    Inl e \<Rightarrow> (Inl e, [])
                  | Inr new_uuid \<Rightarrow>
                      (case getIsoTimestr c of
                         Inl e \<Rightarrow> (Inl e, [])
                       | Inr now \<Rightarrow>
                           (case getClientIp c of
                              Inl e \<Rightarrow> (Inl e, [])
                            | Inr ip \<Rightarrow>
                                let dbUser = dbUser_of new_uuid now ip u a
                                in (case saveUser c dbUser of
                                      Inl e \<Rightarrow>
                                        (Inr token,
                                         [SaveUser dbUser, ConsoleError ''save user failed:'' e])
                                    | Inr savedUser \<Rightarrow>
                                        (Inr (token\<lparr>token_user :=
                                                Some \<lparr>p_uuid = uuid savedUser,
                                                      p_email = email savedUser,
                                                      p_nickname = nickname savedUser,
                                                      p_avatar_url = avatar_url savedUser,
                                                      p_created_at = created_at savedUser\<rparr>\<rparr>),
                                         [SaveUser dbUser])))))))"

text \<open>The callback: the outer \<^verbatim>\<open>catch\<close> logs and returns the token it was given.\<close>

definition jwt ::
  "collaborators \<Rightarrow> 't jwt_token_scheme \<Rightarrow> auth_user option \<Rightarrow> account option
     \<Rightarrow> (error + 't jwt_token_scheme) \<times> event list" where
  "jwt c token user acct =
     (case jwt_try c token user acct of
        (Inl e, evs) \<Rightarrow> (Inr token, evs @ [ConsoleError ''jwt callback error:'' e])
      | (Inr t, evs) \<Rightarrow> (Inr t, evs))"

subsection \<open>Names for the statements\<close>

text \<open>\<^verbatim>\<open>user\<close>, \<^verbatim>\<open>user.email\<close> and \<^verbatim>\<open>account\<close> are all present.\<close>

definition signing_in :: "auth_user option \<Rightarrow> account option \<Rightarrow> bool" where
  "signing_in user acct =
     (case user of None \<Rightarrow> False | Some u \<Rightarrow> truthy_str (user_email u) \<and> acct \<noteq> None)"

text \<open>An environment variable is set: it has a value, and the value is not empty.\<close>

definition is_set :: "(string \<Rightarrow> string option) \<Rightarrow> string \<Rightarrow> bool" where
  "is_set env k = (case env k of None \<Rightarrow> False | Some v \<Rightarrow> v \<noteq> [])"

text \<open>A method is configured: its feature flag equals \<^verbatim>\<open>"true"\<close> and its required
  variables are set.\<close>

definition one_tap_configured :: "(string \<Rightarrow> string option) \<Rightarrow> bool" where
  "one_tap_configured env =
     (env ''NEXT_PUBLIC_AUTH_GOOGLE_ONE_TAP_ENABLED'' = Some ''true'' \<and>
      is_set env ''NEXT_PUBLIC_AUTH_GOOGLE_ID'')"

definition google_configured :: "(string \<Rightarrow> string option) \<Rightarrow> bool" where
  "google_configured env =
     (env ''NEXT_PUBLIC_AUTH_GOOGLE_ENABLED'' = Some ''true'' \<and>
      is_set env ''AUTH_GOOGLE_ID'' \<and> is_set env ''AUTH_GOOGLE_SECRET'')"

definition github_configured :: "(string \<Rightarrow> string option) \<Rightarrow> bool" where
  "github_configured env =
     (env ''NEXT_PUBLIC_AUTH_GITHUB_ENABLED'' = Some ''true'' \<and>
      is_set env ''AUTH_GITHUB_ID'' \<and> is_set env ''AUTH_GITHUB_SECRET'')"

definition one_tap_descriptor :: provider where
  "one_tap_descriptor =
     CredentialsProvider
       \<lparr>cfg_id = ''google-one-tap'',
        cfg_name = ''google-one-tap'',
        cfg_credentials = [(''credential'', [(''type'', ''text'')])],
        cfg_authorize = authorize\<rparr>"

definition google_descriptor :: "(string \<Rightarrow> string option) \<Rightarrow> provider" where
  "google_descriptor env =
     GoogleProvider \<lparr>clientId = the (env ''AUTH_GOOGLE_ID''),
                     clientSecret = the (env ''AUTH_GOOGLE_SECRET'')\<rparr>"

definition github_descriptor :: "(string \<Rightarrow> string option) \<Rightarrow> provider" where
  "github_descriptor env =
     GitHubProvider \<lparr>clientId = the (env ''AUTH_GITHUB_ID''),
                     clientSecret = the (env ''AUTH_GITHUB_SECRET'')\<rparr>"

definition google_variables :: "string list" where
  "google_variables =
     [''NEXT_PUBLIC_AUTH_GOOGLE_ONE_TAP_ENABLED'', ''NEXT_PUBLIC_AUTH_GOOGLE_ID'',
      ''NEXT_PUBLIC_AUTH_GOOGLE_ENABLED'', ''AUTH_GOOGLE_ID'', ''AUTH_GOOGLE_SECRET'']"

definition github_variables :: "string list" where
  "github_variables =
     [''NEXT_PUBLIC_AUTH_GITHUB_ENABLED'', ''AUTH_GITHUB_ID'', ''AUTH_GITHUB_SECRET'']"

subsection \<open>Concrete inputs\<close>

text \<open>Environments: only the GitHub variables, and all eight variables.\<close>

definition github_env :: "string \<Rightarrow> string option" where
  "github_env =
     map_of [(''NEXT_PUBLIC_AUTH_GITHUB_ENABLED'', ''true''),
             (''AUTH_GITHUB_ID'', ''Iv1.0123''),
             (''AUTH_GITHUB_SECRET'', ''s3cret'')]"

definition full_env :: "string \<Rightarrow> string option" where
  "full_env =
     map_of [(''NEXT_PUBLIC_AUTH_GOOGLE_ONE_TAP_ENABLED'', ''true''),
             (''NEXT_PUBLIC_AUTH_GOOGLE_ID'', ''client-1''),
             (''NEXT_PUBLIC_AUTH_GOOGLE_ENABLED'', ''true''),
             (''AUTH_GOOGLE_ID'', ''client-1''),
             (''AUTH_GOOGLE_SECRET'', ''g-secret''),
             (''NEXT_PUBLIC_AUTH_GITHUB_ENABLED'', ''true''),
             (''AUTH_GITHUB_ID'', ''Iv1.0123''),
             (''AUTH_GITHUB_SECRET'', ''s3cret'')]"

text \<open>The framework's constructors, to run \<open>providerMap\<close>: each returns an object;
  the credentials provider has the id \<^verbatim>\<open>credentials\<close> (the configured id is kept
  among its options), the others the ids \<^verbatim>\<open>google\<close> and \<^verbatim>\<open>github\<close>.\<close>

definition example_lib :: "provider \<Rightarrow> shape" where
  "example_lib p =
     (case p of
        CredentialsProvider cfg \<Rightarrow>
          IsObject \<lparr>entry_id = ''credentials'', entry_name = ''Credentials''\<rparr>
      | GoogleProvider cfg \<Rightarrow> IsObject \<lparr>entry_id = ''google'', entry_name = ''Google''\<rparr>
      | GitHubProvider cfg \<Rightarrow> IsObject \<lparr>entry_id = ''github'', entry_name = ''GitHub''\<rparr>)"

text \<open>A verification response with all six claims, and one without \<^verbatim>\<open>email\<close>.\<close>

definition full_payload :: jsval where
  "full_payload =
     JObj [(''email'', JStr ''ada@example.com''),
           (''sub'', JStr ''1234''),
           (''given_name'', JStr ''Ada''),
           (''family_name'', JStr ''Lovelace''),
           (''email_verified'', JStr ''true''),
           (''picture'', JStr ''https://img.example.com/ada.png'')]"

definition no_email_payload :: jsval where
  "no_email_payload = JObj [(''sub'', JStr ''1234''), (''given_name'', JStr ''Ada'')]"

definition responding :: "bool \<Rightarrow> jsval \<Rightarrow> string \<Rightarrow> error + response" where
  "responding is_ok payload url = Inr \<lparr>ok = is_ok, json = Inr payload\<rparr>"

definition one_tap_env :: "string \<Rightarrow> string option" where
  "one_tap_env = map_of [(''NEXT_PUBLIC_AUTH_GOOGLE_ID'', ''client-1'')]"

definition some_credentials :: credentials where
  "some_credentials = \<lparr>credential = Some (JStr ''tok'')\<rparr>"

text \<open>A value whose string conversion throws (\<^verbatim>\<open>{"toString": 1}\<close>), as a credential
  and as the \<^verbatim>\<open>given_name\<close> of a payload; a response whose body is not JSON; a
  \<^verbatim>\<open>fetch\<close> that rejects.\<close>

definition unprintable :: jsval where
  "unprintable = JObj [(''toString'', JNum ''1'')]"

definition unprintable_credentials :: credentials where
  "unprintable_credentials = \<lparr>credential = Some unprintable\<rparr>"

definition unprintable_name_payload :: jsval where
  "unprintable_name_payload =
     JObj [(''email'', JStr ''ada@example.com''),
           (''sub'', JStr ''1234''),
           (''given_name'', unprintable),
           (''family_name'', JStr ''Lovelace'')]"

definition no_body :: "string \<Rightarrow> error + response" where
  "no_body url = Inr \<lparr>ok = True, json = Inl SyntaxError\<rparr>"

definition unreachable :: "string \<Rightarrow> error + response" where
  "unreachable url = Inl (Error ''fetch failed'')"

text \<open>A first sign-in, and helpers whose \<^verbatim>\<open>saveUser\<close> throws.\<close>

definition ada :: auth_user where
  "ada = \<lparr>user_name = Some ''Ada'', user_email = Some ''ada@example.com'', user_image = None\<rparr>"

definition github_account :: account where
  "github_account =
     \<lparr>account_type = ''oauth'', provider = ''github'', providerAccountId = ''42''\<rparr>"

definition failing_save :: collaborators where
  "failing_save =
     \<lparr>getUuid = Inr ''u-1'',
      getIsoTimestr = Inr ''2024-01-01T00:00:00.000Z'',
      getClientIp = Inr ''127.0.0.1'',
      saveUser = (\<lambda>d. Inl (Error ''db down''))\<rparr>"


definition ada_projection :: projection where
  "ada_projection =
     \<lparr>p_uuid = ''u-0'', p_email = ''ada@example.com'', p_nickname = ''Ada'',
      p_avatar_url = [], p_created_at = ''2023-12-31T00:00:00.000Z''\<rparr>"

section \<open>Properties\<close>

subsection \<open>The \<^verbatim>\<open>redirect\<close> callback\<close>

lemma example_origin_same:
  "example_origin ''https://app.example.com/x'' = Some ''https://app.example.com''"
  by (simp add: example_origin_def origin_after_def startsWith_def host_char_def)

lemma example_origin_other:
  "example_origin ''https://evil.example.com/x'' = Some ''https://evil.example.com''"
  by (simp add: example_origin_def origin_after_def startsWith_def host_char_def)


text \<open>No origin the example parser returns ends with a slash: it ends with the last
  character of a host.\<close>

lemma origin_after_last:
  assumes "origin_after scheme rest = Some og"
  shows "og \<noteq> [] \<and> host_char (last og)"
proof -
  let ?host = "takeWhile host_char rest"
  from assms have ne: "?host \<noteq> []" and og: "og = scheme @ ?host"
    by (auto simp: origin_after_def Let_def split: if_splits)
  from ne have "last ?host \<in> set ?host" by simp
  then have "host_char (last ?host)" by (rule set_takeWhileD[THEN conjunct2])
  with ne og show ?thesis by simp
qed

lemma example_origin_last:
  "example_origin u = Some og \<Longrightarrow> og \<noteq> [] \<and> host_char (last og)"
  by (auto simp: example_origin_def split: if_splits dest: origin_after_last)

lemma example_origin_no_trailing_slash: "example_origin u \<noteq> Some (b @ ''/'')"
proof
  assume "example_origin u = Some (b @ ''/'')"
  then have "host_char (last (b @ ''/''))" by (blast dest: example_origin_last)
  then show False by (simp add: host_char_def)
qed

text \<open>
  Claim C1. For every \<open>url\<close> and \<open>baseUrl\<close>, \<open>redirect\<close> returns \<open>baseUrl\<close> followed by
  \<open>url\<close> when \<open>url\<close> starts with a slash; returns \<open>url\<close> unchanged when \<open>url\<close> is an
  absolute URL (it does not start with a slash and the URL constructor accepts it)
  whose origin equals \<open>baseUrl\<close>; and returns \<open>baseUrl\<close> for every other absolute URL.
\<close>

theorem redirect_rule:
  "(startsWith url ''/'' \<longrightarrow> redirect origin url baseUrl = Inr (baseUrl @ url)) \<and>
   (\<not> startsWith url ''/'' \<and> origin url = Some baseUrl \<longrightarrow>
      redirect origin url baseUrl = Inr url) \<and>
   (\<not> startsWith url ''/'' \<and> origin url = Some og \<and> og \<noteq> baseUrl \<longrightarrow>
      redirect origin url baseUrl = Inr baseUrl)"
  by (simp add: redirect_def)

theorem redirect_rule_witness:
  "redirect example_origin ''/dashboard'' ''https://app.example.com''
     = Inr ''https://app.example.com/dashboard'' \<and>
   redirect example_origin ''https://app.example.com/x'' ''https://app.example.com''
     = Inr ''https://app.example.com/x'' \<and>
   redirect example_origin ''https://evil.example.com/x'' ''https://app.example.com''
     = Inr ''https://app.example.com''"
proof -
  have a: "startsWith ''/dashboard'' ''/''" by (simp add: startsWith_def)
  have b: "\<not> startsWith ''https://app.example.com/x'' ''/''" by (simp add: startsWith_def)
  have c: "\<not> startsWith ''https://evil.example.com/x'' ''/''" by (simp add: startsWith_def)
  have d: "''https://evil.example.com'' \<noteq> ''https://app.example.com''" by simp
  from redirect_rule [of "''/dashboard''" example_origin "''https://app.example.com''"] a
  have 1: "redirect example_origin ''/dashboard'' ''https://app.example.com''
     = Inr ''https://app.example.com/dashboard''" by simp
  from redirect_rule [of "''https://app.example.com/x''" example_origin
      "''https://app.example.com''"] b example_origin_same
  have 2: "redirect example_origin ''https://app.example.com/x'' ''https://app.example.com''
     = Inr ''https://app.example.com/x''" by blast
  from redirect_rule [of "''https://evil.example.com/x''" example_origin
      "''https://app.example.com''" "''https://evil.example.com''"] c d example_origin_other
  have 3: "redirect example_origin ''https://evil.example.com/x'' ''https://app.example.com''
     = Inr ''https://app.example.com''" by blast
  from 1 2 3 show ?thesis by blast
qed

text \<open>
  Claim C10. The same-origin test compares the origin of the parsed \<open>url\<close> with the
  \<open>baseUrl\<close> argument as it is given. So when \<open>baseUrl\<close> is not an origin string (no URL
  has it as its origin: it carries a trailing slash or a path), every absolute URL,
  also one of the same origin, is answered with \<open>baseUrl\<close>.
\<close>

theorem redirect_verbatim_base:
  "(\<not> startsWith url ''/'' \<and> origin url = Some og \<longrightarrow>
      redirect origin url baseUrl = Inr (if og = baseUrl then url else baseUrl)) \<and>
   ((\<forall>u. origin u \<noteq> Some baseUrl) \<and> \<not> startsWith url ''/'' \<and> origin url \<noteq> None \<longrightarrow>
      redirect origin url baseUrl = Inr baseUrl)"
  by (auto simp: redirect_def split: option.splits)

theorem redirect_verbatim_base_witness:
  "example_origin ''https://app.example.com/x'' = Some ''https://app.example.com'' \<and>
   redirect example_origin ''https://app.example.com/x'' ''https://app.example.com/''
     = Inr ''https://app.example.com/''"
proof -
  have b: "\<not> startsWith ''https://app.example.com/x'' ''/''" by (simp add: startsWith_def)
  have n: "\<forall>u. example_origin u \<noteq> Some ''https://app.example.com/''"
    using example_origin_no_trailing_slash [of _ "''https://app.example.com''"] by simp
  from redirect_verbatim_base [of "''https://app.example.com/x''" example_origin
      "''https://app.example.com''" "''https://app.example.com/''"] b n example_origin_same
  show ?thesis by simp
qed

subsection \<open>String conversion\<close>

lemma join_elem_Some: "join_elem (Some x) = (if x = JNull then Inr [] else to_string x)"
  by (cases x) simp_all

lemma to_string_array: "to_string (JArr xs) = join (map Some xs) '',''"
proof -
  have "join_elem \<circ> Some = (\<lambda>x. if x = JNull then Inr [] else to_string x)"
    by (rule ext) (simp add: join_elem_Some)
  then show ?thesis by (simp add: join_def)
qed

lemma join_nil: "join [] sep = Inr []"
  by (simp add: join_def)

lemma join_single: "join [x] sep = join_elem x"
  by (cases "join_elem x") (simp_all add: join_def)

lemma join_cons:
  "join (x # y # ys) sep =
     (case join_elem x of
        Inl e \<Rightarrow> Inl e
      | Inr s \<Rightarrow> (case join (y # ys) sep of Inl e \<Rightarrow> Inl e | Inr r \<Rightarrow> Inr (s @ sep @ r)))"
  by (cases "join_elem x"; cases "join_elem y"; cases "sequence (map join_elem ys)")
     (simp_all add: join_def)

lemma join_pair:
  "join [a, b] sep =
     (case join_elem a of
        Inl e \<Rightarrow> Inl e
      | Inr s \<Rightarrow> (case join_elem b of Inl e \<Rightarrow> Inl e | Inr r \<Rightarrow> Inr (s @ sep @ r)))"
  by (cases "join_elem a"; cases "join_elem b") (simp_all add: join_def)

lemma unprintable_throws: "to_string unprintable = Inl TypeError"
  by (simp add: unprintable_def has_own_def)

subsection \<open>The One Tap \<^verbatim>\<open>authorize\<close> function\<close>

lemma authorize_no_client_id:
  "\<not> truthy_str (env ''NEXT_PUBLIC_AUTH_GOOGLE_ID'') \<Longrightarrow>
   authorize env fetch now creds = (Inr None, [ConsoleLog ''invalid google auth config''])"
  by (simp add: authorize_def)

lemma authorize_conversion_throws:
  "truthy_str (env ''NEXT_PUBLIC_AUTH_GOOGLE_ID'') \<Longrightarrow>
   concat_operand (credential creds) = Inl e \<Longrightarrow>
   authorize env fetch now creds = (Inl e, [])"
  by (simp add: authorize_def)

lemma authorize_fetch_rejects:
  "truthy_str (env ''NEXT_PUBLIC_AUTH_GOOGLE_ID'') \<Longrightarrow>
   concat_operand (credential creds) = Inr tok \<Longrightarrow> fetch (tokeninfo_url tok) = Inl e \<Longrightarrow>
   authorize env fetch now creds = (Inl e, [Fetch (tokeninfo_url tok)])"
  by (simp add: authorize_def)

lemma authorize_not_ok:
  "truthy_str (env ''NEXT_PUBLIC_AUTH_GOOGLE_ID'') \<Longrightarrow>
   concat_operand (credential creds) = Inr tok \<Longrightarrow> fetch (tokeninfo_url tok) = Inr r \<Longrightarrow>
   \<not> ok r \<Longrightarrow>
   authorize env fetch now creds =
     (Inr None, [Fetch (tokeninfo_url tok), ConsoleLog ''Failed to verify token''])"
  by (simp add: authorize_def)

lemma authorize_json_rejects:
  "truthy_str (env ''NEXT_PUBLIC_AUTH_GOOGLE_ID'') \<Longrightarrow>
   concat_operand (credential creds) = Inr tok \<Longrightarrow> fetch (tokeninfo_url tok) = Inr r \<Longrightarrow>
   ok r \<Longrightarrow> json r = Inl e \<Longrightarrow>
   authorize env fetch now creds = (Inl e, [Fetch (tokeninfo_url tok)])"
  by (simp add: authorize_def)

lemma authorize_falsy_payload:
  "truthy_str (env ''NEXT_PUBLIC_AUTH_GOOGLE_ID'') \<Longrightarrow>
   concat_operand (credential creds) = Inr tok \<Longrightarrow> fetch (tokeninfo_url tok) = Inr r \<Longrightarrow>
   ok r \<Longrightarrow> json r = Inr p \<Longrightarrow> \<not> truthy p \<Longrightarrow>
   authorize env fetch now creds =
     (Inr None, [Fetch (tokeninfo_url tok), ConsoleLog ''invalid payload from token''])"
  by (simp add: authorize_def)

lemma authorize_no_email:
  "truthy_str (env ''NEXT_PUBLIC_AUTH_GOOGLE_ID'') \<Longrightarrow>
   concat_operand (credential creds) = Inr tok \<Longrightarrow> fetch (tokeninfo_url tok) = Inr r \<Longrightarrow>
   ok r \<Longrightarrow> json r = Inr p \<Longrightarrow> truthy p \<Longrightarrow> \<not> truthy_opt (get_prop p ''email'') \<Longrightarrow>
   authorize env fetch now creds =
     (Inr None, [Fetch (tokeninfo_url tok), ConsoleLog ''invalid email in payload''])"
  by (cases "get_prop p ''email''") (simp_all add: authorize_def)

lemma authorize_checks_passed:
  "truthy_str (env ''NEXT_PUBLIC_AUTH_GOOGLE_ID'') \<Longrightarrow>
   concat_operand (credential creds) = Inr tok \<Longrightarrow> fetch (tokeninfo_url tok) = Inr r \<Longrightarrow>
   ok r \<Longrightarrow> json r = Inr p \<Longrightarrow> truthy p \<Longrightarrow> get_prop p ''email'' = Some em \<Longrightarrow> truthy em \<Longrightarrow>
   authorize env fetch now creds =
     (case join [get_prop p ''given_name'', get_prop p ''family_name''] '' '' of
        Inl e \<Rightarrow> (Inl e, [Fetch (tokeninfo_url tok)])
      | Inr name \<Rightarrow>
          (Inr (Some \<lparr>ot_id = get_prop p ''sub'',
                      ot_name = name,
                      ot_email = em,
                      ot_image = get_prop p ''picture'',
                      ot_emailVerified =
                        (if truthy_opt (get_prop p ''email_verified'') then Some now
                         else None)\<rparr>),
           [Fetch (tokeninfo_url tok)]))"
  by (simp add: authorize_def Let_def)



lemma one_tap_env_id: "truthy_str (one_tap_env ''NEXT_PUBLIC_AUTH_GOOGLE_ID'')"
  by (simp add: one_tap_env_def)

lemma responding_fetch: "responding b p url = Inr \<lparr>ok = b, json = Inr p\<rparr>"
  by (simp add: responding_def)

lemma some_credentials_text: "concat_operand (credential some_credentials) = Inr ''tok''"
  by (simp add: some_credentials_def)

lemma unprintable_credentials_throw:
  "concat_operand (credential unprintable_credentials) = Inl TypeError"
  by (simp add: unprintable_credentials_def unprintable_throws)

text \<open>
  Claim C3, as stated, fails: with a response that is not ok, a credential whose string
  conversion throws makes \<open>authorize\<close> raise before it fetches; and when the
  verification call fails as a whole (\<^verbatim>\<open>fetch\<close> rejects) or the response has no JSON
  body, \<open>authorize\<close> raises what \<^verbatim>\<open>fetch\<close> or \<^verbatim>\<open>response.json()\<close> raised.
\<close>

theorem authorize_failures_raise:
  "fst (authorize one_tap_env (responding False full_payload) (Date 0) unprintable_credentials)
     = Inl TypeError \<and>
   fst (authorize one_tap_env unreachable (Date 0) some_credentials)
     = Inl (Error ''fetch failed'') \<and>
   fst (authorize one_tap_env no_body (Date 0) some_credentials) = Inl SyntaxError"
proof -
  have 1: "fst (authorize one_tap_env (responding False full_payload) (Date 0)
                  unprintable_credentials) = Inl TypeError"
    by (simp add: authorize_conversion_throws one_tap_env_id unprintable_credentials_throw)
  have 2: "fst (authorize one_tap_env unreachable (Date 0) some_credentials)
             = Inl (Error ''fetch failed'')"
    by (simp add: authorize_fetch_rejects
        [where env = one_tap_env and creds = some_credentials,
         OF one_tap_env_id some_credentials_text] unreachable_def)
  have "no_body (tokeninfo_url ''tok'') = Inr \<lparr>ok = True, json = Inl SyntaxError\<rparr>"
    by (simp add: no_body_def)
  then have 3: "fst (authorize one_tap_env no_body (Date 0) some_credentials) = Inl SyntaxError"
    by (simp add: authorize_json_rejects
        [where env = one_tap_env and creds = some_credentials,
         OF one_tap_env_id some_credentials_text])
  from 1 2 3 show ?thesis by blast
qed

text \<open>
  Claim C3, amended. \<open>authorize\<close> logs a message and returns \<open>null\<close>, raising nothing,
  when no Google client id is configured, and when the credential converts to a
  string, \<^verbatim>\<open>fetch\<close> resolves and either the response is not ok, or its body decodes to
  a falsy payload or to a payload without a truthy \<open>email\<close>. With a client id
  configured, \<open>authorize\<close> raises instead of returning \<open>null\<close> when the string
  conversion of the credential throws, when \<^verbatim>\<open>fetch\<close> rejects, and when the response is
  ok and decoding its body rejects: it hands on that exception.
\<close>

theorem authorize_failure_null:
  "(\<not> truthy_str (env ''NEXT_PUBLIC_AUTH_GOOGLE_ID'') \<or>
    (concat_operand (credential creds) = Inr tok \<and> fetch (tokeninfo_url tok) = Inr r \<and>
     (\<not> ok r \<or>
      (\<exists>p. json r = Inr p \<and> (\<not> truthy p \<or> \<not> truthy_opt (get_prop p ''email'')))))
    \<longrightarrow>
      fst (authorize env fetch now creds) = Inr None \<and>
      (\<exists>msg. last (snd (authorize env fetch now creds)) = ConsoleLog msg)) \<and>
   (truthy_str (env ''NEXT_PUBLIC_AUTH_GOOGLE_ID'') \<and>
    (concat_operand (credential creds) = Inl e \<or>
     (concat_operand (credential creds) = Inr tok \<and>
      (fetch (tokeninfo_url tok) = Inl e \<or>
       (fetch (tokeninfo_url tok) = Inr r \<and> ok r \<and> json r = Inl e))))
    \<longrightarrow> fst (authorize env fetch now creds) = Inl e)"
proof (intro conjI impI)
  assume a: "\<not> truthy_str (env ''NEXT_PUBLIC_AUTH_GOOGLE_ID'') \<or>
    (concat_operand (credential creds) = Inr tok \<and> fetch (tokeninfo_url tok) = Inr r \<and>
     (\<not> ok r \<or>
      (\<exists>p. json r = Inr p \<and> (\<not> truthy p \<or> \<not> truthy_opt (get_prop p ''email'')))))"
  have "authorize env fetch now creds \<in>
          {(Inr None, [ConsoleLog ''invalid google auth config'']),
           (Inr None, [Fetch (tokeninfo_url tok), ConsoleLog ''Failed to verify token'']),
           (Inr None, [Fetch (tokeninfo_url tok), ConsoleLog ''invalid payload from token'']),
           (Inr None, [Fetch (tokeninfo_url tok), ConsoleLog ''invalid email in payload''])}"
  proof (cases "truthy_str (env ''NEXT_PUBLIC_AUTH_GOOGLE_ID'')")
    case False
    then show ?thesis by (simp add: authorize_no_client_id)
  next
    case True
    with a have t: "concat_operand (credential creds) = Inr tok"
      and r: "fetch (tokeninfo_url tok) = Inr r"
      and c: "\<not> ok r \<or>
              (\<exists>p. json r = Inr p \<and> (\<not> truthy p \<or> \<not> truthy_opt (get_prop p ''email'')))"
      by blast+
    show ?thesis
    proof (cases "ok r")
      case False
      with True t r show ?thesis by (simp add: authorize_not_ok)
    next
      case ok: True
      with c obtain p where p: "json r = Inr p"
        and d: "\<not> truthy p \<or> \<not> truthy_opt (get_prop p ''email'')" by blast
      show ?thesis
      proof (cases "truthy p")
        case False
        with True t r ok p show ?thesis by (simp add: authorize_falsy_payload)
      next
        case tp: True
        with d have "\<not> truthy_opt (get_prop p ''email'')" by simp
        with True t r ok p tp show ?thesis by (simp add: authorize_no_email)
      qed
    qed
  qed
  then show "fst (authorize env fetch now creds) = Inr None"
    and "\<exists>msg. last (snd (authorize env fetch now creds)) = ConsoleLog msg"
    by auto
next
  assume "truthy_str (env ''NEXT_PUBLIC_AUTH_GOOGLE_ID'') \<and>
    (concat_operand (credential creds) = Inl e \<or>
     (concat_operand (credential creds) = Inr tok \<and>
      (fetch (tokeninfo_url tok) = Inl e \<or>
       (fetch (tokeninfo_url tok) = Inr r \<and> ok r \<and> json r = Inl e))))"
  then show "fst (authorize env fetch now creds) = Inl e"
    by (auto simp: authorize_conversion_throws authorize_fetch_rejects authorize_json_rejects)
qed

theorem authorize_failure_null_witness:
  "fst (authorize Map.empty (responding True full_payload) (Date 0) some_credentials) = Inr None \<and>
   fst (authorize one_tap_env (responding False full_payload) (Date 0) some_credentials)
     = Inr None \<and>
   fst (authorize one_tap_env (responding True JNull) (Date 0) some_credentials) = Inr None \<and>
   fst (authorize one_tap_env (responding True no_email_payload) (Date 0) some_credentials)
     = Inr None \<and>
   fst (authorize one_tap_env (responding True full_payload) (Date 0) unprintable_credentials)
     = Inl TypeError"
proof -
  have 1: "fst (authorize Map.empty (responding True full_payload) (Date 0) some_credentials)
             = Inr None"
    using authorize_failure_null
      [where env = Map.empty and fetch = "responding True full_payload"
         and creds = some_credentials and now = "Date 0"]
    by simp
  have 2: "fst (authorize one_tap_env (responding False full_payload) (Date 0) some_credentials)
             = Inr None"
    using authorize_failure_null
      [where env = one_tap_env and fetch = "responding False full_payload"
         and creds = some_credentials and now = "Date 0" and tok = "''tok''"
         and r = "\<lparr>ok = False, json = Inr full_payload\<rparr>"]
    by (simp add: responding_fetch some_credentials_text)
  have 3: "fst (authorize one_tap_env (responding True JNull) (Date 0) some_credentials)
             = Inr None"
    using authorize_failure_null
      [where env = one_tap_env and fetch = "responding True JNull"
         and creds = some_credentials and now = "Date 0" and tok = "''tok''"
         and r = "\<lparr>ok = True, json = Inr JNull\<rparr>"]
    by (simp add: responding_fetch some_credentials_text)
  have "\<not> truthy_opt (get_prop no_email_payload ''email'')"
    by (simp add: no_email_payload_def)
  then have 4:
    "fst (authorize one_tap_env (responding True no_email_payload) (Date 0) some_credentials)
       = Inr None"
    using authorize_failure_null
      [where env = one_tap_env and fetch = "responding True no_email_payload"
         and creds = some_credentials and now = "Date 0" and tok = "''tok''"
         and r = "\<lparr>ok = True, json = Inr no_email_payload\<rparr>"]
    by (simp add: responding_fetch some_credentials_text)
  have 5:
    "fst (authorize one_tap_env (responding True full_payload) (Date 0) unprintable_credentials)
       = Inl TypeError"
    using authorize_failure_null
      [where env = one_tap_env and fetch = "responding True full_payload"
         and creds = unprintable_credentials and now = "Date 0" and e = TypeError]
    by (simp add: one_tap_env_id unprintable_credentials_throw)
  from 1 2 3 4 5 show ?thesis by blast
qed

text \<open>
  Claim C8, as stated, fails: with a client id configured, an ok response and a payload
  with an \<open>email\<close>, a \<open>given_name\<close> whose string conversion throws (the parsed
  \<^verbatim>\<open>{"toString": 1}\<close>) makes the \<^verbatim>\<open>join\<close> throw, and \<open>authorize\<close> raises a
  \<^verbatim>\<open>TypeError\<close> instead of returning the object.
\<close>

theorem authorize_name_throws:
  "fst (authorize one_tap_env (responding True unprintable_name_payload) (Date 0)
          some_credentials) = Inl TypeError"
proof -
  have e: "get_prop unprintable_name_payload ''email'' = Some (JStr ''ada@example.com'')"
    by (simp add: unprintable_name_payload_def)
  have t: "truthy unprintable_name_payload" "truthy (JStr ''ada@example.com'')"
    by (simp_all add: unprintable_name_payload_def)
  have f: "responding True unprintable_name_payload (tokeninfo_url ''tok'')
             = Inr \<lparr>ok = True, json = Inr unprintable_name_payload\<rparr>"
    by (rule responding_fetch)
  have k: "ok \<lparr>ok = True, json = Inr unprintable_name_payload\<rparr>"
    "json \<lparr>ok = True, json = Inr unprintable_name_payload\<rparr> = Inr unprintable_name_payload"
    by simp_all
  have j: "join [get_prop unprintable_name_payload ''given_name'',
                 get_prop unprintable_name_payload ''family_name''] '' '' = Inl TypeError"
    by (simp add: unprintable_name_payload_def join_pair unprintable_def has_own_def)
  show ?thesis
    by (simp add: authorize_checks_passed
        [where env = one_tap_env and creds = some_credentials
           and fetch = "responding True unprintable_name_payload",
         OF one_tap_env_id some_credentials_text f k(1) k(2) t(1) e t(2)] j)
qed

text \<open>
  Claim C8, amended. When the checks of \<open>authorize\<close> pass (a client id is configured,
  the credential converts to a string, the verification response is ok, its payload is
  truthy and has a truthy \<open>email\<close>) and the string conversions of the payload's
  \<open>given_name\<close> and \<open>family_name\<close> do not throw, \<open>authorize\<close> returns the object with
  \<open>id\<close> the payload's \<open>sub\<close>, \<open>name\<close> the two converted name parts joined by one space,
  \<open>email\<close> the payload's \<open>email\<close>, \<open>image\<close> the payload's \<open>picture\<close>, and
  \<open>emailVerified\<close> the current date when the payload's \<open>email_verified\<close> is truthy and
  \<open>null\<close> otherwise. When the conversion of a name part throws, \<open>authorize\<close> raises
  that exception. The conversion of a part gives: the empty string when it is absent or
  \<open>null\<close>; a string itself; the text of a number; \<^verbatim>\<open>true\<close> or \<^verbatim>\<open>false\<close>; for an
  array the join of its elements with a comma; for an object \<^verbatim>\<open>[object Object]\<close>, or a
  \<^verbatim>\<open>TypeError\<close> when it has an own member \<^verbatim>\<open>toString\<close>.
\<close>

theorem authorize_success:
  assumes "truthy_str (env ''NEXT_PUBLIC_AUTH_GOOGLE_ID'')"
    and "concat_operand (credential creds) = Inr tok"
    and "fetch (tokeninfo_url tok) = Inr r" and "ok r"
    and "json r = Inr p" and "truthy p"
    and "get_prop p ''email'' = Some em" and "truthy em"
  shows
    "(join_elem (get_prop p ''given_name'') = Inr g \<and>
      join_elem (get_prop p ''family_name'') = Inr f \<longrightarrow>
        fst (authorize env fetch now creds) =
          Inr (Some \<lparr>ot_id = get_prop p ''sub'',
                     ot_name = g @ '' '' @ f,
                     ot_email = em,
                     ot_image = get_prop p ''picture'',
                     ot_emailVerified =
                       (if truthy_opt (get_prop p ''email_verified'') then Some now
                        else None)\<rparr>)) \<and>
     (join_elem (get_prop p ''given_name'') = Inl e \<or>
      (join_elem (get_prop p ''given_name'') = Inr g \<and>
       join_elem (get_prop p ''family_name'') = Inl e) \<longrightarrow>
        fst (authorize env fetch now creds) = Inl e) \<and>
     join_elem None = Inr [] \<and>
     join_elem (Some JNull) = Inr [] \<and>
     join_elem (Some (JStr s)) = Inr s \<and>
     join_elem (Some (JNum n)) = Inr n \<and>
     join_elem (Some (JBool b)) = Inr (if b then ''true'' else ''false'') \<and>
     join_elem (Some (JObj kvs)) =
       (if ''toString'' \<in> fst ` set kvs then Inl TypeError else Inr ''[object Object]'') \<and>
     join_elem (Some (JArr xs)) = join (map Some xs) '','' \<and>
     join [] sep = Inr [] \<and>
     join [x] sep = join_elem x \<and>
     join (x # y # ys) sep =
       (case join_elem x of
          Inl e' \<Rightarrow> Inl e'
        | Inr s' \<Rightarrow>
            (case join (y # ys) sep of Inl e' \<Rightarrow> Inl e' | Inr r' \<Rightarrow> Inr (s' @ sep @ r')))"
proof -
  note a = authorize_checks_passed
    [where env = env and fetch = fetch and creds = creds and now = now, OF assms]
  have 1: "join_elem (get_prop p ''given_name'') = Inr g \<and>
      join_elem (get_prop p ''family_name'') = Inr f \<longrightarrow>
        fst (authorize env fetch now creds) =
          Inr (Some \<lparr>ot_id = get_prop p ''sub'',
                     ot_name = g @ '' '' @ f,
                     ot_email = em,
                     ot_image = get_prop p ''picture'',
                     ot_emailVerified =
                       (if truthy_opt (get_prop p ''email_verified'') then Some now
                        else None)\<rparr>)"
    by (simp add: a join_pair)
  have 2: "join_elem (get_prop p ''given_name'') = Inl e \<or>
      (join_elem (get_prop p ''given_name'') = Inr g \<and>
       join_elem (get_prop p ''family_name'') = Inl e) \<longrightarrow>
        fst (authorize env fetch now creds) = Inl e"
    by (auto simp: a join_pair)
  have 3: "join_elem (Some (JObj kvs)) =
       (if ''toString'' \<in> fst ` set kvs then Inl TypeError else Inr ''[object Object]'')"
    by (simp add: has_own_def)
  have 4: "join_elem (Some (JArr xs)) = join (map Some xs) '',''"
    by (simp only: join_elem.simps to_string_array)
  have 5: "join_elem None = Inr [] \<and> join_elem (Some JNull) = Inr [] \<and>
     join_elem (Some (JStr s)) = Inr s \<and> join_elem (Some (JNum n)) = Inr n \<and>
     join_elem (Some (JBool b)) = Inr (if b then ''true'' else ''false'')"
    by simp
  from 1 2 3 4 5 join_nil [of sep] join_single [of x sep] join_cons [of x y ys sep]
  show ?thesis by blast
qed

theorem authorize_success_witness:
  "fst (authorize one_tap_env (responding True full_payload) (Date 1700000000000)
          some_credentials) =
     Inr (Some \<lparr>ot_id = Some (JStr ''1234''),
                ot_name = ''Ada Lovelace'',
                ot_email = JStr ''ada@example.com'',
                ot_image = Some (JStr ''https://img.example.com/ada.png''),
                ot_emailVerified = Some (Date 1700000000000)\<rparr>)"
proof -
  have e: "get_prop full_payload ''email'' = Some (JStr ''ada@example.com'')"
    by (simp add: full_payload_def)
  have t: "truthy full_payload" "truthy (JStr ''ada@example.com'')"
    by (simp_all add: full_payload_def)
  have f: "responding True full_payload (tokeninfo_url ''tok'')
             = Inr \<lparr>ok = True, json = Inr full_payload\<rparr>"
    by (rule responding_fetch)
  have k: "ok \<lparr>ok = True, json = Inr full_payload\<rparr>"
    "json \<lparr>ok = True, json = Inr full_payload\<rparr> = Inr full_payload"
    by simp_all
  have n: "join_elem (get_prop full_payload ''given_name'') = Inr ''Ada''"
    "join_elem (get_prop full_payload ''family_name'') = Inr ''Lovelace''"
    by (simp_all add: full_payload_def)
  note authorize_success
    [where env = one_tap_env and fetch = "responding True full_payload"
       and creds = some_credentials and now = "Date 1700000000000"
       and g = "''Ada''" and f = "''Lovelace''",
     OF one_tap_env_id some_credentials_text f k(1) k(2) t(1) e t(2), THEN conjunct1]
  with n show ?thesis by (simp add: full_payload_def)
qed

subsection \<open>The \<^verbatim>\<open>jwt\<close> and \<^verbatim>\<open>session\<close> callbacks\<close>

lemma jwt_try_skip: "\<not> signing_in user acct \<Longrightarrow> jwt_try c token user acct = (Inr token, [])"
  by (auto simp: jwt_try_def signing_in_def split: option.splits)

lemma jwt_skip: "\<not> signing_in user acct \<Longrightarrow> jwt c token user acct = (Inr token, [])"
  by (simp add: jwt_def jwt_try_skip)

lemma jwt_try_saved:
  "SaveUser d \<in> set (snd (jwt_try c token user acct)) \<Longrightarrow>
   \<exists>u a new_uuid now ip. user = Some u \<and> acct = Some a \<and> getUuid c = Inr new_uuid \<and>
     getIsoTimestr c = Inr now \<and> getClientIp c = Inr ip \<and> d = dbUser_of new_uuid now ip u a"
  by (auto simp: jwt_try_def Let_def split: option.splits sum.splits if_splits)

lemma jwt_events_of_try:
  "SaveUser d \<in> set (snd (jwt c token user acct)) \<Longrightarrow>
   SaveUser d \<in> set (snd (jwt_try c token user acct))"
  by (cases "jwt_try c token user acct" rule: prod.exhaust)
     (auto simp: jwt_def split: sum.splits)

lemma jwt_saved:
  "SaveUser d \<in> set (snd (jwt c token user acct)) \<Longrightarrow>
   signing_in user acct \<and>
   (\<exists>u a new_uuid now ip. user = Some u \<and> acct = Some a \<and> getUuid c = Inr new_uuid \<and>
      getIsoTimestr c = Inr now \<and> getClientIp c = Inr ip \<and> d = dbUser_of new_uuid now ip u a)"
proof
  assume s: "SaveUser d \<in> set (snd (jwt c token user acct))"
  show "signing_in user acct"
  proof (rule ccontr)
    assume "\<not> signing_in user acct"
    then have "jwt c token user acct = (Inr token, [])" by (rule jwt_skip)
    with s show False by simp
  qed
  from s show "\<exists>u a new_uuid now ip. user = Some u \<and> acct = Some a \<and>
      getUuid c = Inr new_uuid \<and> getIsoTimestr c = Inr now \<and> getClientIp c = Inr ip \<and>
      d = dbUser_of new_uuid now ip u a"
    by (intro jwt_try_saved jwt_events_of_try)
qed

lemma jwt_save_fails:
  assumes "user = Some u" "truthy_str (user_email u)" "acct = Some a"
    and "getUuid c = Inr new_uuid" "getIsoTimestr c = Inr now" "getClientIp c = Inr ip"
    and "saveUser c (dbUser_of new_uuid now ip u a) = Inl e"
  shows "jwt c token user acct =
           (Inr token, [SaveUser (dbUser_of new_uuid now ip u a),
                        ConsoleError ''save user failed:'' e])"
  using assms by (simp add: jwt_def jwt_try_def)


lemma failing_save_fields:
  "getUuid failing_save = Inr ''u-1''"
  "getIsoTimestr failing_save = Inr ''2024-01-01T00:00:00.000Z''"
  "getClientIp failing_save = Inr ''127.0.0.1''"
  "saveUser failing_save d = Inl (Error ''db down'')"
  by (simp_all add: failing_save_def)

lemma ada_email: "truthy_str (user_email ada)"
  by (simp add: ada_def)

text \<open>
  Claim C4. When \<open>user\<close>, \<open>user.email\<close> and \<open>account\<close> are present and \<open>saveUser\<close>
  throws, \<open>jwt\<close> logs the error and returns the token it was given: no projection is
  attached and nothing is raised.
\<close>

theorem jwt_save_failure:
  assumes "user = Some u" and "truthy_str (user_email u)" and "acct = Some a"
    and "getUuid c = Inr new_uuid" and "getIsoTimestr c = Inr now"
    and "getClientIp c = Inr ip"
    and "saveUser c (dbUser_of new_uuid now ip u a) = Inl e"
  shows "fst (jwt c token user acct) = Inr token \<and>
         snd (jwt c token user acct) =
           [SaveUser (dbUser_of new_uuid now ip u a), ConsoleError ''save user failed:'' e]"
  using assms by (simp add: jwt_save_fails)

theorem jwt_save_failure_witness:
  "fst (jwt failing_save \<lparr>token_user = None\<rparr> (Some ada) (Some github_account))
     = Inr \<lparr>token_user = None\<rparr> \<and>
   snd (jwt failing_save \<lparr>token_user = None\<rparr> (Some ada) (Some github_account)) =
     [SaveUser \<lparr>uuid = ''u-1'', email = ''ada@example.com'', nickname = ''Ada'',
                avatar_url = [], signin_type = ''oauth'', signin_provider = ''github'',
                signin_openid = ''42'', created_at = ''2024-01-01T00:00:00.000Z'',
                signin_ip = ''127.0.0.1''\<rparr>,
      ConsoleError ''save user failed:'' (Error ''db down'')]"
proof -
  note jwt_save_failure
    [where c = failing_save and user = "Some ada" and acct = "Some github_account"
       and token = "\<lparr>token_user = None\<rparr>",
     OF refl ada_email refl failing_save_fields]
  then show ?thesis by (simp add: dbUser_of_def ada_def github_account_def)
qed

text \<open>
  Claim C5. \<open>jwt\<close> builds a user record and calls \<open>saveUser\<close> only when \<open>user\<close>,
  \<open>user.email\<close> and \<open>account\<close> are all present. In every other invocation it does
  nothing and returns the token it was given, so every member of the token, its
  \<open>user\<close> among them, is as before.
\<close>

theorem jwt_frame:
  "(\<not> signing_in user acct \<longrightarrow>
      jwt c token user acct = (Inr token, []) \<and>
      (\<forall>t. fst (jwt c token user acct) = Inr t \<longrightarrow> token_user t = token_user token)) \<and>
   (SaveUser d \<in> set (snd (jwt c token user acct)) \<longrightarrow>
      signing_in user acct \<and>
      (\<exists>u a new_uuid now ip. user = Some u \<and> acct = Some a \<and>
         d = dbUser_of new_uuid now ip u a))"
proof (intro conjI impI)
  assume n: "\<not> signing_in user acct"
  then show "jwt c token user acct = (Inr token, [])" by (rule jwt_skip)
  from n show "\<forall>t. fst (jwt c token user acct) = Inr t \<longrightarrow> token_user t = token_user token"
    by (simp add: jwt_skip)
next
  assume s: "SaveUser d \<in> set (snd (jwt c token user acct))"
  then show "signing_in user acct" by (simp add: jwt_saved)
  from jwt_saved [OF s]
  show "\<exists>u a new_uuid now ip. user = Some u \<and> acct = Some a \<and>
          d = dbUser_of new_uuid now ip u a"
    by blast
qed

theorem jwt_frame_witness:
  "jwt failing_save \<lparr>token_user = Some ada_projection\<rparr> None None
     = (Inr \<lparr>token_user = Some ada_projection\<rparr>, []) \<and>
   jwt failing_save \<lparr>token_user = Some ada_projection\<rparr> (Some ada) None
     = (Inr \<lparr>token_user = Some ada_projection\<rparr>, []) \<and>
   signing_in (Some ada) (Some github_account)"
proof -
  have 1: "\<not> signing_in None None" by (simp add: signing_in_def)
  have 2: "\<not> signing_in (Some ada) None" by (simp add: signing_in_def)
  have 3: "SaveUser (dbUser_of ''u-1'' ''2024-01-01T00:00:00.000Z'' ''127.0.0.1'' ada
                      github_account)
             \<in> set (snd (jwt failing_save \<lparr>token_user = None\<rparr> (Some ada)
                          (Some github_account)))"
    by (simp add: jwt_save_fails [OF refl ada_email refl failing_save_fields])
  from 1 jwt_frame [of None None failing_save "\<lparr>token_user = Some ada_projection\<rparr>"]
  have a: "jwt failing_save \<lparr>token_user = Some ada_projection\<rparr> None None
             = (Inr \<lparr>token_user = Some ada_projection\<rparr>, [])" by blast
  from 2 jwt_frame [of "Some ada" None failing_save "\<lparr>token_user = Some ada_projection\<rparr>"]
  have b: "jwt failing_save \<lparr>token_user = Some ada_projection\<rparr> (Some ada) None
             = (Inr \<lparr>token_user = Some ada_projection\<rparr>, [])" by blast
  from 3 jwt_frame [of "Some ada" "Some github_account" failing_save "\<lparr>token_user = None\<rparr>"]
  have c: "signing_in (Some ada) (Some github_account)" by blast
  from a b c show ?thesis by blast
qed

text \<open>
  Claim C9. If \<open>token.user\<close> is present, \<open>session\<close> returns the session it was given
  with its \<open>user\<close> set to \<open>token.user\<close>; otherwise (no token, or a token without
  \<open>user\<close>) it returns the session it was given.
\<close>

theorem session_copies_token_user:
  "(token = Some t \<and> token_user t = Some u \<longrightarrow>
      session ses token = Inr (ses\<lparr>session_user := FromToken u\<rparr>)) \<and>
   (token = None \<or> (\<exists>t. token = Some t \<and> token_user t = None) \<longrightarrow>
      session ses token = Inr ses)"
  by (auto simp: session_def)

theorem session_copies_token_user_witness:
  "session \<lparr>session_user = Original ada\<rparr> (Some \<lparr>token_user = Some ada_projection\<rparr>)
     = Inr \<lparr>session_user = FromToken ada_projection\<rparr> \<and>
   session \<lparr>session_user = Original ada\<rparr> (Some \<lparr>token_user = None\<rparr>)
     = Inr \<lparr>session_user = Original ada\<rparr> \<and>
   session \<lparr>session_user = Original ada\<rparr> (None :: jwt_token option)
     = Inr \<lparr>session_user = Original ada\<rparr>"
proof -
  from session_copies_token_user
    [of "Some \<lparr>token_user = Some ada_projection\<rparr>" "\<lparr>token_user = Some ada_projection\<rparr>"
        ada_projection "\<lparr>session_user = Original ada\<rparr>"]
  have 1: "session \<lparr>session_user = Original ada\<rparr> (Some \<lparr>token_user = Some ada_projection\<rparr>)
     = Inr \<lparr>session_user = FromToken ada_projection\<rparr>" by simp
  from session_copies_token_user
    [of "Some \<lparr>token_user = None\<rparr>" _ _ "\<lparr>session_user = Original ada\<rparr>"]
  have 2: "session \<lparr>session_user = Original ada\<rparr> (Some \<lparr>token_user = None\<rparr>)
     = Inr \<lparr>session_user = Original ada\<rparr>" by simp
  from session_copies_token_user
    [of "None :: jwt_token option" _ _ "\<lparr>session_user = Original ada\<rparr>"]
  have 3: "session \<lparr>session_user = Original ada\<rparr> (None :: jwt_token option)
     = Inr \<lparr>session_user = Original ada\<rparr>" by simp
  from 1 2 3 show ?thesis by blast
qed

subsection \<open>The provider list and \<^verbatim>\<open>providerMap\<close>\<close>

lemma is_set_truthy: "is_set env k = truthy_str (env k)"
  by (cases "env k") (simp_all add: is_set_def)

lemma providers_closed:
  "providers env =
     (if one_tap_configured env then [one_tap_descriptor] else []) @
     (if google_configured env then [google_descriptor env] else []) @
     (if github_configured env then [github_descriptor env] else [])"
  by (simp add: providers_def push_def Let_def is_set_truthy one_tap_configured_def
      google_configured_def github_configured_def one_tap_descriptor_def
      google_descriptor_def github_descriptor_def)

lemma providers_one_tap:
  "(\<exists>cfg. CredentialsProvider cfg \<in> set (providers env)) = one_tap_configured env"
  by (auto simp: providers_closed one_tap_descriptor_def google_descriptor_def
      github_descriptor_def)

lemma providers_google:
  "(\<exists>cfg. GoogleProvider cfg \<in> set (providers env)) = google_configured env"
  by (auto simp: providers_closed one_tap_descriptor_def google_descriptor_def
      github_descriptor_def)

lemma providers_github:
  "(\<exists>cfg. GitHubProvider cfg \<in> set (providers env)) = github_configured env"
  by (auto simp: providers_closed one_tap_descriptor_def google_descriptor_def
      github_descriptor_def)

lemma providers_none_set:
  assumes "\<forall>k \<in> set (google_variables @ github_variables). \<not> is_set env k"
  shows "providers env = []" and "providerMap lib env = []"
proof -
  from assms have "\<not> one_tap_configured env" "\<not> google_configured env"
    "\<not> github_configured env"
    by (simp_all add: google_variables_def github_variables_def one_tap_configured_def
        google_configured_def github_configured_def)
  then show "providers env = []" by (simp add: providers_closed)
  then show "providerMap lib env = []" by (simp add: providerMap_def)
qed

lemma providers_github_only:
  assumes "github_configured env" and "\<forall>k \<in> set google_variables. \<not> is_set env k"
  shows "providers env = [github_descriptor env]"
proof -
  from assms(2) have "\<not> one_tap_configured env" "\<not> google_configured env"
    by (simp_all add: google_variables_def one_tap_configured_def google_configured_def)
  with assms(1) show ?thesis by (simp add: providers_closed)
qed

lemma github_env_configured: "github_configured github_env"
  by (simp add: github_configured_def is_set_def github_env_def)

lemma github_env_no_google: "\<forall>k \<in> set google_variables. \<not> is_set github_env k"
  by (simp add: google_variables_def is_set_def github_env_def)

lemma empty_env_unset: "\<forall>k \<in> set (google_variables @ github_variables). \<not> is_set Map.empty k"
  by (simp add: is_set_def)





text \<open>
  Claim C7. For every environment, the provider list holds the descriptor of a method
  exactly when the method's feature flag equals \<^verbatim>\<open>"true"\<close> and its required variables
  are set, in the order One Tap, Google, GitHub. With none of the eight variables set the
  list and \<open>providerMap\<close> are empty; with only the GitHub variables set the list is the
  one GitHub descriptor.
\<close>

theorem providers_registry:
  "providers env =
     (if one_tap_configured env then [one_tap_descriptor] else []) @
     (if google_configured env then [google_descriptor env] else []) @
     (if github_configured env then [github_descriptor env] else []) \<and>
   ((\<exists>cfg. CredentialsProvider cfg \<in> set (providers env)) = one_tap_configured env) \<and>
   ((\<exists>cfg. GoogleProvider cfg \<in> set (providers env)) = google_configured env) \<and>
   ((\<exists>cfg. GitHubProvider cfg \<in> set (providers env)) = github_configured env) \<and>
   ((\<forall>k \<in> set (google_variables @ github_variables). \<not> is_set env k) \<longrightarrow>
      providers env = [] \<and> providerMap lib env = []) \<and>
   (github_configured env \<and> (\<forall>k \<in> set google_variables. \<not> is_set env k) \<longrightarrow>
      providers env = [github_descriptor env])"
proof (intro conjI impI)
  show "providers env =
     (if one_tap_configured env then [one_tap_descriptor] else []) @
     (if google_configured env then [google_descriptor env] else []) @
     (if github_configured env then [github_descriptor env] else [])"
    by (rule providers_closed)
  show "(\<exists>cfg. CredentialsProvider cfg \<in> set (providers env)) = one_tap_configured env"
    by (rule providers_one_tap)
  show "(\<exists>cfg. GoogleProvider cfg \<in> set (providers env)) = google_configured env"
    by (rule providers_google)
  show "(\<exists>cfg. GitHubProvider cfg \<in> set (providers env)) = github_configured env"
    by (rule providers_github)
next
  assume a: "\<forall>k \<in> set (google_variables @ github_variables). \<not> is_set env k"
  then show "providers env = []" by (rule providers_none_set)
  from a show "providerMap lib env = []" by (rule providers_none_set)
next
  assume "github_configured env \<and> (\<forall>k \<in> set google_variables. \<not> is_set env k)"
  then show "providers env = [github_descriptor env]"
    by (simp add: providers_github_only)
qed

theorem providers_registry_witness:
  "providers Map.empty = [] \<and>
   providerMap example_lib Map.empty = [] \<and>
   providers github_env
     = [GitHubProvider \<lparr>clientId = ''Iv1.0123'', clientSecret = ''s3cret''\<rparr>] \<and>
   providers full_env
     = [one_tap_descriptor, google_descriptor full_env, github_descriptor full_env]"
proof -
  from providers_registry [of Map.empty example_lib] empty_env_unset
  have 1: "providers Map.empty = [] \<and> providerMap example_lib Map.empty = []" by blast
  from providers_registry [of github_env example_lib] github_env_configured
    github_env_no_google
  have "providers github_env = [github_descriptor github_env]" by blast
  then have 2: "providers github_env
     = [GitHubProvider \<lparr>clientId = ''Iv1.0123'', clientSecret = ''s3cret''\<rparr>]"
    by (simp add: github_descriptor_def github_env_def)
  have c: "one_tap_configured full_env" "google_configured full_env"
    "github_configured full_env"
    by (simp_all add: one_tap_configured_def google_configured_def github_configured_def
        is_set_def full_env_def)
  from providers_registry [of full_env example_lib]
  have "providers full_env =
     (if one_tap_configured full_env then [one_tap_descriptor] else []) @
     (if google_configured full_env then [google_descriptor full_env] else []) @
     (if github_configured full_env then [github_descriptor full_env] else [])"
    by blast
  with c have 3: "providers full_env
     = [one_tap_descriptor, google_descriptor full_env, github_descriptor full_env]"
    by simp
  from 1 2 3 show ?thesis by blast
qed

subsection \<open>Exceptions\<close>










end
